theory Spec2Isabelle
  imports Main
begin

section \<open>Python values used by \<^verbatim>\<open>apps/wine.py\<close>\<close>

text \<open>
  A Python \<^verbatim>\<open>float\<close> is an IEEE double. \<open>Finite s m e\<close> is the number
  \<open>(-1)^s * m * 2^e\<close> (\<open>s\<close> is the sign bit, so \<open>Finite True 0 0\<close> is \<^verbatim>\<open>-0.0\<close>);
  \<open>Infinite s\<close> is \<^verbatim>\<open>inf\<close> or \<^verbatim>\<open>-inf\<close>. All arithmetic below is exact arithmetic on
  the mantissa and the exponent.
\<close>

datatype pyfloat = Finite bool nat int | Infinite bool | NaN

text \<open>
  A parsed JSON document, as \<^verbatim>\<open>response.json()\<close> returns it: \<^verbatim>\<open>None\<close>, \<^verbatim>\<open>bool\<close>,
  \<^verbatim>\<open>int\<close> (unbounded), \<^verbatim>\<open>float\<close>, \<^verbatim>\<open>str\<close>, \<^verbatim>\<open>list\<close> and \<^verbatim>\<open>dict\<close>. A \<^verbatim>\<open>dict\<close> is the
  list of its items in insertion order; a Python \<^verbatim>\<open>dict\<close> holds one item per key.
\<close>

datatype json =
    JNull
  | JBool bool
  | JInt int
  | JFloat pyfloat
  | JStr string
  | JList "json list"
  | JDict "(string \<times> json) list"

text \<open>
  The values \<^verbatim>\<open>st.number_input\<close> hands to \<^verbatim>\<open>get_prediction\<close> are numbers: a \<^verbatim>\<open>float\<close>
  for the four decimal widgets, an \<^verbatim>\<open>int\<close> for \<^verbatim>\<open>is_red\<close>; \<^verbatim>\<open>bool\<close> is Python's
  subclass of \<^verbatim>\<open>int\<close>.
\<close>

datatype pynum = PBool bool | PInt int | PFloat pyfloat

text \<open>
  The exceptions that can occur in the file. \<open>RequestException\<close> stands for the class
  \<^verbatim>\<open>requests.exceptions.RequestException\<close> and its subclasses (connection error,
  timeout, TLS failure); its argument is the text of the exception. \<open>OtherError\<close> is any
  exception outside the classes named here.
\<close>

datatype pyexn =
    RequestException string
  | JSONDecodeError
  | AttributeError
  | IndexError
  | TypeError
  | ValueError
  | OverflowError
  | OtherError string

fun is_RequestException :: "pyexn \<Rightarrow> bool" where
  "is_RequestException (RequestException _) = True"
| "is_RequestException _ = False"

section \<open>Builtins: \<^verbatim>\<open>format(x, '.2f')\<close>, \<^verbatim>\<open>int(x)\<close>, \<^verbatim>\<open>float(x)\<close>, truth values\<close>

text \<open>The integer nearest to \<open>p / q\<close> (for \<open>0 < q\<close>), a tie going to the even one.\<close>

definition round_half_even :: "nat \<Rightarrow> nat \<Rightarrow> nat" where
  "round_half_even p q =
     (let d = p div q; r = p mod q
      in if 2 * r < q then d
         else if q < 2 * r then d + 1
         else if even d then d else d + 1)"

fun bit_length :: "nat \<Rightarrow> nat" where
  "bit_length n = (if n = 0 then 0 else Suc (bit_length (n div 2)))"

declare bit_length.simps [simp del]

text \<open>
  The double nearest to the integer \<open>(-1)^s * n\<close>, as \<^verbatim>\<open>float(n)\<close> computes it: exact up
  to 53 bits, rounded to 53 bits (ties to even) above, and \<open>None\<close> where Python raises
  \<^verbatim>\<open>OverflowError\<close> because the rounded value is \<open>2^1024\<close> or more.
\<close>

definition float_of_nat :: "bool \<Rightarrow> nat \<Rightarrow> pyfloat option" where
  "float_of_nat s n =
     (let l = bit_length n
      in if l \<le> 53 then Some (Finite s n 0)
         else let sh = l - 53; m = round_half_even n (2 ^ sh)
              in if 971 < sh \<or> (sh = 971 \<and> m = 2 ^ 53) then None
                 else Some (Finite s m (int sh)))"

definition float_of_int :: "int \<Rightarrow> pyfloat option" where
  "float_of_int n = float_of_nat (n < 0) (nat \<bar>n\<bar>)"

text \<open>Decimal digits.\<close>

definition digit_char :: "nat \<Rightarrow> char" where
  "digit_char k = ''0123456789'' ! (k mod 10)"

definition is_digit :: "char \<Rightarrow> bool" where
  "is_digit c = (c \<in> set ''0123456789'')"

fun digits :: "nat \<Rightarrow> string" where
  "digits n = (if n < 10 then [digit_char n] else digits (n div 10) @ [digit_char (n mod 10)])"

declare digits.simps [simp del]

text \<open>\<open>centi m e\<close> is \<open>m * 2^e * 100\<close> rounded to an integer, ties to even.\<close>

definition centi :: "nat \<Rightarrow> int \<Rightarrow> nat" where
  "centi m e =
     (if 0 \<le> e then m * 2 ^ nat e * 100
      else round_half_even (m * 100) (2 ^ nat (- e)))"

text \<open>
  \<^verbatim>\<open>f"{x:.2f}"\<close> for a float \<^verbatim>\<open>x\<close>: the exact value correctly rounded to two decimals,
  with the sign of the float (so \<^verbatim>\<open>-0.001\<close> gives \<^verbatim>\<open>-0.00\<close>); \<^verbatim>\<open>inf\<close> and \<^verbatim>\<open>nan\<close> are
  written by name.
\<close>

fun format_2f :: "pyfloat \<Rightarrow> string" where
  "format_2f (Finite s m e) =
     (let c = centi m e
      in (if s then ''-'' else '''') @ digits (c div 100) @ ''.'' @
         [digit_char (c mod 100 div 10), digit_char (c mod 10)])"
| "format_2f (Infinite s) = (if s then ''-inf'' else ''inf'')"
| "format_2f NaN = ''nan''"

text \<open>
  \<^verbatim>\<open>f"{x:.2f}"\<close> for a number: an \<^verbatim>\<open>int\<close> (and a \<^verbatim>\<open>bool\<close>) is converted to a float
  first, which raises \<^verbatim>\<open>OverflowError\<close> when it is too large.
\<close>

definition int_of_bool :: "bool \<Rightarrow> int" where
  "int_of_bool b = (if b then 1 else 0)"

fun py_format_2f :: "pynum \<Rightarrow> pyexn + string" where
  "py_format_2f (PFloat f) = Inr (format_2f f)"
| "py_format_2f (PInt n) =
     (case float_of_int n of None \<Rightarrow> Inl OverflowError | Some f \<Rightarrow> Inr (format_2f f))"
| "py_format_2f (PBool b) =
     (case float_of_int (int_of_bool b) of None \<Rightarrow> Inl OverflowError
      | Some f \<Rightarrow> Inr (format_2f f))"

text \<open>
  \<^verbatim>\<open>int(x)\<close> for a number: a float is truncated toward zero; \<^verbatim>\<open>int(nan)\<close> raises
  \<^verbatim>\<open>ValueError\<close> and \<^verbatim>\<open>int(inf)\<close> raises \<^verbatim>\<open>OverflowError\<close>.
\<close>

fun py_int :: "pynum \<Rightarrow> pyexn + int" where
  "py_int (PBool b) = Inr (int_of_bool b)"
| "py_int (PInt n) = Inr n"
| "py_int (PFloat (Finite s m e)) =
     (let a = (if 0 \<le> e then m * 2 ^ nat e else m div 2 ^ nat (- e))
      in Inr (if s then - int a else int a))"
| "py_int (PFloat (Infinite s)) = Inl OverflowError"
| "py_int (PFloat NaN) = Inl ValueError"

text \<open>
  Truth value of a parsed document (\<^verbatim>\<open>if result:\<close>): \<^verbatim>\<open>None\<close>, \<^verbatim>\<open>False\<close>, zero, the
  empty string, the empty list and the empty dict are false; \<^verbatim>\<open>nan\<close> is true.
\<close>

fun truthy :: "json \<Rightarrow> bool" where
  "truthy JNull = False"
| "truthy (JBool b) = b"
| "truthy (JInt n) = (n \<noteq> 0)"
| "truthy (JFloat (Finite s m e)) = (m \<noteq> 0)"
| "truthy (JFloat (Infinite s)) = True"
| "truthy (JFloat NaN) = True"
| "truthy (JStr s) = (s \<noteq> [])"
| "truthy (JList xs) = (xs \<noteq> [])"
| "truthy (JDict kvs) = (kvs \<noteq> [])"

text \<open>
  The double nearest to \<open>(-1)^s * p / q\<close> (for \<open>0 < q\<close>), ties to even, with gradual
  underflow below \<open>2^-1022\<close> and \<^verbatim>\<open>inf\<close> from \<open>2^1024 - 2^970\<close> on: what the string
  conversion of \<^verbatim>\<open>float\<close> computes from a decimal literal.
\<close>

definition ratio_ge :: "nat \<Rightarrow> nat \<Rightarrow> int \<Rightarrow> bool" where
  "ratio_ge p q k = (if 0 \<le> k then q * 2 ^ nat k \<le> p else q \<le> p * 2 ^ nat (- k))"

definition float_of_ratio :: "bool \<Rightarrow> nat \<Rightarrow> nat \<Rightarrow> pyfloat" where
  "float_of_ratio s p q =
     (if p = 0 then Finite s 0 0
      else let k = int (bit_length p) - int (bit_length q);
               fl = (if ratio_ge p q k then k else k - 1);
               e = max (fl - 52) (- 1074);
               m = (if 0 \<le> e then round_half_even p (q * 2 ^ nat e)
                    else round_half_even (p * 2 ^ nat (- e)) q)
           in if 971 < e \<or> (e = 971 \<and> m = 2 ^ 53) then Infinite s else Finite s m e)"

text \<open>
  \<^verbatim>\<open>float(s)\<close> for a string of ASCII characters: blanks stripped at both ends, an
  optional sign, then \<^verbatim>\<open>inf\<close>, \<^verbatim>\<open>infinity\<close> or \<^verbatim>\<open>nan\<close> in any case, or a decimal literal
  with an optional fraction and exponent, where a single underscore may stand between two
  digits. \<open>None\<close> is \<^verbatim>\<open>ValueError\<close>.
\<close>

definition is_space :: "char \<Rightarrow> bool" where
  "is_space c = (c \<in> set [CHR 0x09, CHR 0x0A, CHR 0x0B, CHR 0x0C, CHR 0x0D, CHR '' ''])"

definition strip :: "string \<Rightarrow> string" where
  "strip s = rev (dropWhile is_space (rev (dropWhile is_space s)))"

definition lower :: "char \<Rightarrow> char" where
  "lower c =
     (case map_of (zip ''ABCDEFGHIJKLMNOPQRSTUVWXYZ'' ''abcdefghijklmnopqrstuvwxyz'') c of
        None \<Rightarrow> c | Some d \<Rightarrow> d)"

definition digit_val :: "char \<Rightarrow> nat" where
  "digit_val c = (of_char c :: nat) - 48"

definition nat_of_digits :: "string \<Rightarrow> nat" where
  "nat_of_digits ds = foldl (\<lambda>a c. 10 * a + digit_val c) 0 ds"

text \<open>The longest leading run of digits (underscores dropped) and what follows it.\<close>

fun digitpart :: "string \<Rightarrow> string \<times> string" where
  "digitpart [] = ([], [])"
| "digitpart [c] = (if is_digit c then ([c], []) else ([], [c]))"
| "digitpart (c # d # cs) =
     (if \<not> is_digit c then ([], c # d # cs)
      else if is_digit d then (case digitpart (d # cs) of (ds, r) \<Rightarrow> (c # ds, r))
      else if d = CHR ''_'' \<and> cs \<noteq> [] \<and> is_digit (hd cs)
           then (case digitpart cs of (ds, r) \<Rightarrow> (c # ds, r))
      else ([c], d # cs))"

definition has_sign :: "string \<Rightarrow> bool" where
  "has_sign t = (t \<noteq> [] \<and> (hd t = CHR ''-'' \<or> hd t = CHR ''+''))"

definition is_negative :: "string \<Rightarrow> bool" where
  "is_negative t = (t \<noteq> [] \<and> hd t = CHR ''-'')"

definition exponent :: "string \<Rightarrow> int option" where
  "exponent r =
     (case r of
        [] \<Rightarrow> Some 0
      | c # t \<Rightarrow>
          if c = CHR ''e'' \<or> c = CHR ''E''
          then (case digitpart (if has_sign t then tl t else t) of
                  (ds, rest) \<Rightarrow>
                    if ds = [] \<or> rest \<noteq> [] then None
                    else Some (if is_negative t then - int (nat_of_digits ds)
                               else int (nat_of_digits ds)))
          else None)"

definition decimal :: "string \<Rightarrow> (nat \<times> int) option" where
  "decimal u =
     (case digitpart u of
        (ip, r1) \<Rightarrow>
          (case (if r1 \<noteq> [] \<and> hd r1 = CHR ''.'' then digitpart (tl r1) else ([], r1)) of
             (fp, r2) \<Rightarrow>
               if ip = [] \<and> fp = [] then None
               else (case exponent r2 of
                       None \<Rightarrow> None
                     | Some x \<Rightarrow> Some (nat_of_digits (ip @ fp), x - int (length fp)))))"

definition float_of_string :: "string \<Rightarrow> pyfloat option" where
  "float_of_string str =
     (let t = strip str;
          u = (if has_sign t then tl t else t);
          w = map lower u
      in if w = ''inf'' \<or> w = ''infinity'' then Some (Infinite (is_negative t))
         else if w = ''nan'' then Some NaN
         else (case decimal u of
                 None \<Rightarrow> None
               | Some (n, ex) \<Rightarrow>
                   Some (if 0 \<le> ex then float_of_ratio (is_negative t) (n * 10 ^ nat ex) 1
                         else float_of_ratio (is_negative t) n (10 ^ nat (- ex)))))"

text \<open>
  \<^verbatim>\<open>float(x)\<close> for a parsed value: a number converts (a huge \<^verbatim>\<open>int\<close> raises
  \<^verbatim>\<open>OverflowError\<close>), a string is parsed (\<^verbatim>\<open>ValueError\<close> when it is no literal), and
  \<^verbatim>\<open>None\<close>, a list and a dict raise \<^verbatim>\<open>TypeError\<close>.
\<close>

fun py_float :: "json \<Rightarrow> pyexn + pyfloat" where
  "py_float JNull = Inl TypeError"
| "py_float (JBool b) =
     (case float_of_int (int_of_bool b) of None \<Rightarrow> Inl OverflowError | Some f \<Rightarrow> Inr f)"
| "py_float (JInt n) =
     (case float_of_int n of None \<Rightarrow> Inl OverflowError | Some f \<Rightarrow> Inr f)"
| "py_float (JFloat f) = Inr f"
| "py_float (JStr s) =
     (case float_of_string s of None \<Rightarrow> Inl ValueError | Some f \<Rightarrow> Inr f)"
| "py_float (JList xs) = Inl TypeError"
| "py_float (JDict kvs) = Inl TypeError"

section \<open>The environment, the HTTP transport and the page\<close>

text \<open>
  \<^verbatim>\<open>os.getenv\<close> reads a variable of the process environment: \<open>None\<close> when it is not set.
\<close>

type_synonym environ = "string \<Rightarrow> string option"

text \<open>The arguments of \<^verbatim>\<open>requests.post(api_url, auth=..., json=..., headers=...)\<close>.\<close>

record request =
  url :: string
  auth :: "string option \<times> string option"
  json_body :: json
  headers :: "(string \<times> string) list"

text \<open>
  What the code reads of a response: \<^verbatim>\<open>response.text\<close>, and \<^verbatim>\<open>response.json()\<close>, which
  returns the parsed body or raises (\<open>JSONDecodeError\<close> when the body is not JSON).
\<close>

record response =
  response_text :: string
  response_json :: "pyexn + json"

text \<open>
  The transport is the \<^verbatim>\<open>requests\<close> library and the network behind it: given the request
  it raises or returns a response. It is a parameter of the model.
\<close>

type_synonym transport = "request \<Rightarrow> pyexn + response"

text \<open>
  An f-string is the list of its pieces: literal text, \<^verbatim>\<open>{e}\<close> for an exception
  (its \<^verbatim>\<open>str\<close>), \<^verbatim>\<open>{v}\<close> for a parsed value (its \<^verbatim>\<open>str\<close>).
\<close>

datatype fragment = Lit string | Str_exn pyexn | Str_json json

type_synonym fstring = "fragment list"

text \<open>The figure \<^verbatim>\<open>draw_gauge\<close> builds.\<close>

record gauge =
  gauge_value :: pyfloat
  axis_range :: "int \<times> int"
  steps :: "((int \<times> int) \<times> string) list"
  threshold_value :: pyfloat

definition draw_gauge :: "pyfloat \<Rightarrow> gauge" where
  "draw_gauge v =
     \<lparr>gauge_value = v, axis_range = (3, 10),
      steps = [((3, 7), ''red''), ((7, 9), ''gold''), ((9, 10), ''forestgreen'')],
      threshold_value = v\<rparr>"

text \<open>
  What a run of the page does, in order: the call of the transport, and the elements it
  puts on the page (\<^verbatim>\<open>st.error\<close>, \<^verbatim>\<open>st.write\<close>, the two \<^verbatim>\<open>metric\<close> cells,
  \<^verbatim>\<open>st.plotly_chart\<close>, \<^verbatim>\<open>st.expander\<close> and the \<^verbatim>\<open>st.json\<close> inside it). The elements are
  recorded with their arguments; the transient spinner and the layout call
  \<^verbatim>\<open>st.columns\<close> put nothing on the page and are not recorded.
\<close>

datatype event =
    Http_post request
  | St_error fstring
  | St_write fstring
  | St_metric string json
  | St_metric_text string fstring
  | St_plotly_chart gauge
  | St_expander string
  | St_json json

subsection \<open>\<^verbatim>\<open>get_prediction\<close>\<close>

text \<open>
  The dict display of lines 20 to 28, evaluated item by item in the order written; the
  first conversion that raises ends it.
\<close>

definition payload :: "pynum \<Rightarrow> pynum \<Rightarrow> pynum \<Rightarrow> pynum \<Rightarrow> pynum \<Rightarrow> pyexn + json" where
  "payload density volatile_acidity chlorides is_red alcohol =
     (case py_format_2f density of Inl e \<Rightarrow> Inl e | Inr d \<Rightarrow>
     (case py_format_2f volatile_acidity of Inl e \<Rightarrow> Inl e | Inr v \<Rightarrow>
     (case py_format_2f chlorides of Inl e \<Rightarrow> Inl e | Inr c \<Rightarrow>
     (case py_int is_red of Inl e \<Rightarrow> Inl e | Inr r \<Rightarrow>
     (case py_format_2f alcohol of Inl e \<Rightarrow> Inl e | Inr a \<Rightarrow>
        Inr (JDict [(''data'', JDict
               [(''density'', JStr d),
                (''volatile_acidity'', JStr v),
                (''chlorides'', JStr c),
                (''is_red'', JInt r),
                (''alcohol'', JStr a)])]))))))"

text \<open>
  \<^verbatim>\<open>get_prediction\<close> returns the events of the call and either the exception that
  escapes it or the value it returns (\<open>JNull\<close> is \<^verbatim>\<open>None\<close>). \<^verbatim>\<open>not api_url\<close> holds for an
  unset variable and for the empty string. The inner handler catches
  \<^verbatim>\<open>json.JSONDecodeError\<close>, the outer one \<^verbatim>\<open>RequestException\<close>; any other exception of the
  transport or of \<^verbatim>\<open>response.json()\<close> escapes.
\<close>

definition request_failed :: "request \<Rightarrow> pyexn \<Rightarrow> event list \<times> (pyexn + json)" where
  "request_failed req e =
     (if is_RequestException e
      then ([Http_post req, St_error [Lit ''HTTP Request failed: '', Str_exn e]], Inr JNull)
      else ([Http_post req], Inl e))"

definition get_prediction ::
  "environ \<Rightarrow> transport \<Rightarrow> pynum \<Rightarrow> pynum \<Rightarrow> pynum \<Rightarrow> pynum \<Rightarrow> pynum
     \<Rightarrow> event list \<times> (pyexn + json)" where
  "get_prediction environ post density volatile_acidity chlorides is_red alcohol =
     (let api_url = environ ''API_URL'';
          username = environ ''API_USERNAME'';
          password = environ ''API_PASSWORD''
      in case api_url of
           None \<Rightarrow> ([St_error [Lit ''API_URL environment variable is not set.'']], Inr JNull)
         | Some u \<Rightarrow>
             if u = [] then
               ([St_error [Lit ''API_URL environment variable is not set.'']], Inr JNull)
             else
               (case payload density volatile_acidity chlorides is_red alcohol of
                  Inl e \<Rightarrow> ([], Inl e)
                | Inr p \<Rightarrow>
                    (let req = \<lparr>url = u, auth = (username, password), json_body = p,
                                headers = [(''Content-Type'', ''application/json'')]\<rparr>
                     in case post req of
                          Inl e \<Rightarrow> request_failed req e
                        | Inr resp \<Rightarrow>
                            (case response_json resp of
                               Inr result \<Rightarrow> ([Http_post req], Inr result)
                             | Inl e \<Rightarrow>
                                 if e = JSONDecodeError then
                                   ([Http_post req,
                                     St_error [Lit ''API did not return valid JSON.''],
                                     St_write [Lit (response_text resp)]], Inr JNull)
                                 else request_failed req e))))"

subsection \<open>The prediction tab\<close>

text \<open>\<^verbatim>\<open>obj.get(key, default)\<close>: only a dict has the method.\<close>

definition dict_get :: "json \<Rightarrow> string \<Rightarrow> json \<Rightarrow> pyexn + json" where
  "dict_get obj k dflt =
     (case obj of
        JDict kvs \<Rightarrow> Inr (case map_of kvs k of None \<Rightarrow> dflt | Some v \<Rightarrow> v)
      | _ \<Rightarrow> Inl AttributeError)"

text \<open>\<^verbatim>\<open>xs[0]\<close> raises \<^verbatim>\<open>IndexError\<close> on the empty list.\<close>

definition index0 :: "json list \<Rightarrow> pyexn + json" where
  "index0 xs = (case xs of [] \<Rightarrow> Inl IndexError | x # _ \<Rightarrow> Inr x)"

fun is_list :: "json \<Rightarrow> bool" where
  "is_list (JList _) = True"
| "is_list _ = False"

text \<open>
  Lines 107 to 114. \<^verbatim>\<open>isinstance(raw_prediction, list) and isinstance(raw_prediction[0], list)\<close>
  reads element 0 as soon as \<^verbatim>\<open>raw_prediction\<close> is a list.
\<close>

definition pred_value :: "json \<Rightarrow> pyexn + json" where
  "pred_value raw_prediction =
     (case raw_prediction of
        JList xs \<Rightarrow>
          (case index0 xs of
             Inl e \<Rightarrow> Inl e
           | Inr x0 \<Rightarrow>
               (case x0 of
                  JList ys \<Rightarrow> index0 ys
                | _ \<Rightarrow> index0 xs))
      | _ \<Rightarrow> Inr raw_prediction)"

text \<open>Line 123: \<^verbatim>\<open>result.get('release', {}).get('model_version_number', 'Unknown')\<close>.\<close>

definition model_version :: "json \<Rightarrow> pyexn + json" where
  "model_version result =
     (case dict_get result ''release'' (JDict []) of
        Inl e \<Rightarrow> Inl e
      | Inr release \<Rightarrow> dict_get release ''model_version_number'' (JStr ''Unknown''))"

text \<open>Line 124: \<^verbatim>\<open>result.get('model_time_in_ms', 0)\<close>.\<close>

definition response_time :: "json \<Rightarrow> pyexn + json" where
  "response_time result = dict_get result ''model_time_in_ms'' (JInt 0)"

text \<open>
  The body of the \<^verbatim>\<open>try\<close> (lines 102 to 134): the exception it raises, or the elements it
  puts on the page. Every statement that can raise comes before the first element.
\<close>

definition try_body :: "json \<Rightarrow> pyexn + event list" where
  "try_body result =
     (case dict_get result ''result'' JNull of Inl e \<Rightarrow> Inl e | Inr raw_prediction \<Rightarrow>
     (case pred_value raw_prediction of Inl e \<Rightarrow> Inl e | Inr pv \<Rightarrow>
        if pv = JNull then Inr [St_error [Lit ''Could not extract a prediction value.'']]
        else
          (case py_float pv of Inl e \<Rightarrow> Inl e | Inr f \<Rightarrow>
          (case model_version result of Inl e \<Rightarrow> Inl e | Inr mv \<Rightarrow>
          (case response_time result of Inl e \<Rightarrow> Inl e | Inr rt \<Rightarrow>
             Inr [St_metric ''Model Version'' mv,
                  St_metric_text ''Response Time'' [Str_json rt, Lit '' ms''],
                  St_write [Lit (''### Quality Estimate: '' @ format_2f f)],
                  St_plotly_chart (draw_gauge f)])))))"

text \<open>The \<^verbatim>\<open>try\<close> with its handler \<^verbatim>\<open>except Exception as e\<close> (lines 101 to 139).\<close>

definition normalization :: "json \<Rightarrow> event list" where
  "normalization result =
     (case try_body result of
        Inr evs \<Rightarrow> evs
      | Inl e \<Rightarrow>
          [St_error [Lit ''Error parsing API response: '', Str_exn e],
           St_expander ''Debug: View Raw Response'',
           St_json result])"

text \<open>Lines 100 to 139: the block runs only when \<^verbatim>\<open>result\<close> is true.\<close>

definition show_result :: "json \<Rightarrow> event list" where
  "show_result result = (if truthy result then normalization result else [])"

text \<open>
  The tab (lines 95 to 139) for one run of the script: the events, and the exception that
  ends the run if one escapes. The widgets give a float for \<^verbatim>\<open>feat1\<close>, \<^verbatim>\<open>feat2\<close>, \<^verbatim>\<open>feat3\<close>
  and \<^verbatim>\<open>feat5\<close> and an int for \<^verbatim>\<open>feat4\<close>.
\<close>

definition tab1 ::
  "bool \<Rightarrow> environ \<Rightarrow> transport \<Rightarrow> pyfloat \<Rightarrow> pyfloat \<Rightarrow> pyfloat \<Rightarrow> int \<Rightarrow> pyfloat
     \<Rightarrow> event list \<times> pyexn option" where
  "tab1 predict_btn environ post feat1 feat2 feat3 feat4 feat5 =
     (if predict_btn then
        (case get_prediction environ post
                (PFloat feat1) (PFloat feat2) (PFloat feat3) (PInt feat4) (PFloat feat5) of
           (evs, Inl e) \<Rightarrow> (evs, Some e)
         | (evs, Inr result) \<Rightarrow> (evs @ show_result result, None))
      else ([], None))"

section \<open>Notions used to state the properties\<close>

text \<open>The entry \<open>k\<close> of the \<^verbatim>\<open>data\<close> object of a payload.\<close>

definition payload_field :: "json \<Rightarrow> string \<Rightarrow> json option" where
  "payload_field p k =
     (case p of
        JDict kvs \<Rightarrow>
          (case map_of kvs ''data'' of
             Some (JDict d) \<Rightarrow> map_of d k
           | _ \<Rightarrow> None)
      | _ \<Rightarrow> None)"

text \<open>
  A string with exactly two fractional digits: an optional minus sign, at least one digit,
  a point, two digits.
\<close>

definition two_decimals :: "string \<Rightarrow> bool" where
  "two_decimals s =
     (let u = (if s \<noteq> [] \<and> hd s = CHR ''-'' then tl s else s);
          ip = takeWhile is_digit u;
          r = dropWhile is_digit u
      in ip \<noteq> [] \<and> length r = 3 \<and> r ! 0 = CHR ''.'' \<and> is_digit (r ! 1) \<and> is_digit (r ! 2))"

fun is_two_decimals_string :: "json option \<Rightarrow> bool" where
  "is_two_decimals_string (Some (JStr s)) = two_decimals s"
| "is_two_decimals_string _ = False"

text \<open>A number, as opposed to \<^verbatim>\<open>inf\<close>, \<^verbatim>\<open>-inf\<close> and \<^verbatim>\<open>nan\<close>.\<close>

fun finite_num :: "pynum \<Rightarrow> bool" where
  "finite_num (PFloat (Finite s m e)) = True"
| "finite_num (PFloat (Infinite s)) = False"
| "finite_num (PFloat NaN) = False"
| "finite_num (PInt n) = True"
| "finite_num (PBool b) = True"

text \<open>The elements a run puts on the page: every event but the call of the transport.\<close>

fun on_page :: "event \<Rightarrow> bool" where
  "on_page (Http_post _) = False"
| "on_page _ = True"

definition displayed :: "event list \<Rightarrow> event list" where
  "displayed evs = filter on_page evs"

text \<open>The calls of the transport in a run.\<close>

definition transport_calls :: "event list \<Rightarrow> event list" where
  "transport_calls evs = filter (\<lambda>ev. \<not> on_page ev) evs"

text \<open>The three messages of \<^verbatim>\<open>get_prediction\<close> and the two of the tab.\<close>

definition config_error :: event where
  "config_error = St_error [Lit ''API_URL environment variable is not set.'']"

definition network_error :: "pyexn \<Rightarrow> event" where
  "network_error e = St_error [Lit ''HTTP Request failed: '', Str_exn e]"

definition missing_value_error :: event where
  "missing_value_error = St_error [Lit ''Could not extract a prediction value.'']"

definition parse_error :: "pyexn \<Rightarrow> json \<Rightarrow> event list" where
  "parse_error e result =
     [St_error [Lit ''Error parsing API response: '', Str_exn e],
      St_expander ''Debug: View Raw Response'',
      St_json result]"

text \<open>
  The double written \<^verbatim>\<open>5.67\<close>, \<^verbatim>\<open>0.993\<close>, and the defaults of the four decimal widgets
  \<^verbatim>\<open>0.99\<close>, \<^verbatim>\<open>0.25\<close>, \<^verbatim>\<open>0.05\<close> and \<^verbatim>\<open>10.0\<close>.
\<close>

definition f_5_67 :: pyfloat where "f_5_67 = Finite False 6383852471797678 (- 50)"
definition f_0_993 :: pyfloat where "f_0_993 = Finite False 8944148859957805 (- 53)"
definition f_0_99 :: pyfloat where "f_0_99 = Finite False 4458563631096791 (- 52)"
definition f_0_25 :: pyfloat where "f_0_25 = Finite False 1 (- 2)"
definition f_0_05 :: pyfloat where "f_0_05 = Finite False 3602879701896397 (- 56)"
definition f_10_0 :: pyfloat where "f_10_0 = Finite False 10 0"

text \<open>An environment with the three variables set, and the empty one.\<close>

definition env_set :: environ where
  "env_set = [''API_URL'' \<mapsto> ''https://model.example/predict'',
              ''API_USERNAME'' \<mapsto> ''user'', ''API_PASSWORD'' \<mapsto> ''secret'']"

definition env_unset :: environ where
  "env_unset = Map.empty"

text \<open>A transport that answers every request with the parsed body \<open>j\<close>, and one that fails.\<close>

definition answering :: "json \<Rightarrow> transport" where
  "answering j = (\<lambda>req. Inr \<lparr>response_text = [], response_json = Inr j\<rparr>)"

definition unreachable :: transport where
  "unreachable = (\<lambda>req. Inl (RequestException ''Connection refused''))"

text \<open>The request \<^verbatim>\<open>get_prediction\<close> sends in the environment \<open>env_set\<close>.\<close>

definition request_to_example :: "json \<Rightarrow> request" where
  "request_to_example p =
     \<lparr>url = ''https://model.example/predict'', auth = (Some ''user'', Some ''secret''),
      json_body = p, headers = [(''Content-Type'', ''application/json'')]\<rparr>"

definition data_object :: "string \<Rightarrow> string \<Rightarrow> string \<Rightarrow> int \<Rightarrow> string \<Rightarrow> json" where
  "data_object d v c r a =
     JDict [(''data'', JDict
       [(''density'', JStr d), (''volatile_acidity'', JStr v), (''chlorides'', JStr c),
        (''is_red'', JInt r), (''alcohol'', JStr a)])]"

section \<open>Auxiliary facts\<close>

lemma is_digit_digit_char: "is_digit (digit_char k)"
proof -
  have "k mod 10 < length ''0123456789''" by simp
  then have "''0123456789'' ! (k mod 10) \<in> set ''0123456789''" by (rule nth_mem)
  then show ?thesis by (simp only: is_digit_def digit_char_def)
qed

lemma digits_all: "\<forall>c \<in> set (digits n). is_digit c"
proof (induction n rule: digits.induct)
  case (1 n)
  show ?case
  proof (cases "n < 10")
    case True
    then show ?thesis by (simp add: digits.simps [of n] is_digit_digit_char)
  next
    case False
    with 1 show ?thesis by (simp add: digits.simps [of n] is_digit_digit_char)
  qed
qed

lemma digits_nonempty: "digits n \<noteq> []"
  by (cases "n < 10") (simp_all add: digits.simps [of n])

lemma not_digit_point: "\<not> is_digit CHR ''.''"
  by (simp add: is_digit_def)

lemma not_digit_minus: "\<not> is_digit CHR ''-''"
  by (simp add: is_digit_def)

lemma two_decimals_unsigned:
  assumes "ds \<noteq> []" "\<forall>c \<in> set ds. is_digit c" "is_digit a" "is_digit b"
  shows "two_decimals (ds @ CHR ''.'' # [a, b])"
proof -
  from assms have "hd ds \<noteq> CHR ''-''" using not_digit_minus by (cases ds) auto
  with assms have u: "(if ds @ CHR ''.'' # [a, b] \<noteq> [] \<and> hd (ds @ CHR ''.'' # [a, b]) = CHR ''-''
      then tl (ds @ CHR ''.'' # [a, b]) else ds @ CHR ''.'' # [a, b]) = ds @ CHR ''.'' # [a, b]"
    by simp
  have t: "takeWhile is_digit (ds @ CHR ''.'' # [a, b]) = ds"
    using assms(2) not_digit_point by simp
  have d: "dropWhile is_digit (ds @ CHR ''.'' # [a, b]) = CHR ''.'' # [a, b]"
    using assms(2) not_digit_point by simp
  show ?thesis
    unfolding two_decimals_def u Let_def t d using assms by simp
qed

lemma two_decimals_signed:
  assumes "ds \<noteq> []" "\<forall>c \<in> set ds. is_digit c" "is_digit a" "is_digit b"
  shows "two_decimals (CHR ''-'' # ds @ CHR ''.'' # [a, b])"
proof -
  have t: "takeWhile is_digit (ds @ CHR ''.'' # [a, b]) = ds"
    using assms(2) not_digit_point by simp
  have d: "dropWhile is_digit (ds @ CHR ''.'' # [a, b]) = CHR ''.'' # [a, b]"
    using assms(2) not_digit_point by simp
  show ?thesis
    unfolding two_decimals_def Let_def using assms t d by simp
qed

lemma format_2f_finite: "two_decimals (format_2f (Finite s m e))"
proof (cases s)
  case True
  then show ?thesis
    using two_decimals_signed [OF digits_nonempty digits_all is_digit_digit_char is_digit_digit_char]
    by (simp add: Let_def)
next
  case False
  then show ?thesis
    using two_decimals_unsigned [OF digits_nonempty digits_all is_digit_digit_char is_digit_digit_char]
    by (simp add: Let_def)
qed

lemma float_of_nat_finite: "float_of_nat s n = Some f \<Longrightarrow> \<exists>m e. f = Finite s m e"
  by (auto simp: float_of_nat_def Let_def split: if_splits)

lemma py_format_2f_finite:
  "finite_num x \<Longrightarrow> py_format_2f x = Inr str \<Longrightarrow> two_decimals str"
proof (induction x rule: finite_num.induct)
  case (1 s m e)
  then show ?case using format_2f_finite by auto
next
  case (4 n)
  then show ?case
    using format_2f_finite by (auto simp: float_of_int_def split: option.splits dest!: float_of_nat_finite)
next
  case (5 b)
  then show ?case
    using format_2f_finite by (auto simp: float_of_int_def split: option.splits dest!: float_of_nat_finite)
qed simp_all

lemma payload_Inr:
  "payload d v c r a = Inr p \<Longrightarrow>
     \<exists>ds vs cs n as. py_format_2f d = Inr ds \<and> py_format_2f v = Inr vs \<and> py_format_2f c = Inr cs \<and>
        py_int r = Inr n \<and> py_format_2f a = Inr as \<and>
        p = JDict [(''data'', JDict [(''density'', JStr ds), (''volatile_acidity'', JStr vs),
                (''chlorides'', JStr cs), (''is_red'', JInt n), (''alcohol'', JStr as)])]"
  by (auto simp: payload_def split: sum.splits)

lemma get_prediction_post:
  "Http_post req \<in> set (fst (get_prediction environ post d v c r a)) \<Longrightarrow>
     payload d v c r a = Inr (json_body req)"
  by (auto simp: get_prediction_def request_failed_def Let_def
           split: option.splits sum.splits if_splits)

lemma model_version_skips_result:
  "model_version (JDict ((''result'', x) # rest)) = model_version (JDict rest)"
  by (simp add: model_version_def dict_get_def)

lemma response_time_skips_result:
  "response_time (JDict ((''result'', x) # rest)) = response_time (JDict rest)"
  by (simp add: response_time_def dict_get_def)

lemma try_body_result:
  "try_body (JDict ((''result'', x) # rest)) =
     (case pred_value x of Inl e \<Rightarrow> Inl e | Inr pv \<Rightarrow>
        if pv = JNull then Inr [St_error [Lit ''Could not extract a prediction value.'']]
        else
          (case py_float pv of Inl e \<Rightarrow> Inl e | Inr f \<Rightarrow>
             (case model_version (JDict rest) of Inl e \<Rightarrow> Inl e | Inr mv \<Rightarrow>
                (case response_time (JDict rest) of Inl e \<Rightarrow> Inl e | Inr rt \<Rightarrow>
                   Inr [St_metric ''Model Version'' mv,
                        St_metric_text ''Response Time'' [Str_json rt, Lit '' ms''],
                        St_write [Lit (''### Quality Estimate: '' @ format_2f f)],
                        St_plotly_chart (draw_gauge f)]))))"
  unfolding try_body_def model_version_skips_result response_time_skips_result
  by (simp add: dict_get_def)

lemma pred_value_shapes:
  "pred_value (JList (JList (v # ys) # zs)) = Inr v"
  "\<not> is_list v \<Longrightarrow> pred_value (JList (v # zs)) = Inr v"
  "\<not> is_list v \<Longrightarrow> pred_value v = Inr v"
  by (cases v; simp add: pred_value_def index0_def)+

lemmas fmt = centi_def round_half_even_def digits.simps digit_char_def
  f_0_99_def f_0_25_def f_0_05_def f_10_0_def f_0_993_def f_5_67_def

lemma payload_widgets:
  "payload (PFloat f1) (PFloat f2) (PFloat f3) (PInt n) (PFloat f5) =
     Inr (data_object (format_2f f1) (format_2f f2) (format_2f f3) n (format_2f f5))"
  by (simp add: payload_def data_object_def)

lemma format_2f_widget_defaults:
  "format_2f f_0_99 = ''0.99''" "format_2f f_0_25 = ''0.25''" "format_2f f_0_05 = ''0.05''"
  "format_2f f_10_0 = ''10.00''" "format_2f f_0_993 = ''0.99''" "format_2f f_5_67 = ''5.67''"
  by (simp_all add: fmt)

lemma py_format_2f_one: "py_format_2f (PInt 1) = Inr ''1.00''"
  by (simp add: float_of_int_def float_of_nat_def bit_length.simps fmt)

lemma get_prediction_sends:
  "environ ''API_URL'' = Some u \<Longrightarrow> u \<noteq> [] \<Longrightarrow>
   payload d v c r a = Inr p \<Longrightarrow>
     get_prediction environ post d v c r a =
       (let req = \<lparr>url = u, auth = (environ ''API_USERNAME'', environ ''API_PASSWORD''),
                   json_body = p, headers = [(''Content-Type'', ''application/json'')]\<rparr>
        in case post req of
             Inl e \<Rightarrow> request_failed req e
           | Inr resp \<Rightarrow>
               (case response_json resp of
                  Inr result \<Rightarrow> ([Http_post req], Inr result)
                | Inl e \<Rightarrow>
                    if e = JSONDecodeError then
                      ([Http_post req, St_error [Lit ''API did not return valid JSON.''],
                        St_write [Lit (response_text resp)]], Inr JNull)
                    else request_failed req e))"
  by (simp add: get_prediction_def)

lemma env_set_values:
  "env_set ''API_URL'' = Some ''https://model.example/predict''"
  "env_set ''API_USERNAME'' = Some ''user''"
  "env_set ''API_PASSWORD'' = Some ''secret''"
  by (simp_all add: env_set_def)

lemma get_prediction_env_set:
  "payload d v c r a = Inr p \<Longrightarrow>
     get_prediction env_set post d v c r a =
       (case post (request_to_example p) of
          Inl e \<Rightarrow> request_failed (request_to_example p) e
        | Inr resp \<Rightarrow>
            (case response_json resp of
               Inr result \<Rightarrow> ([Http_post (request_to_example p)], Inr result)
             | Inl e \<Rightarrow>
                 if e = JSONDecodeError then
                   ([Http_post (request_to_example p),
                     St_error [Lit ''API did not return valid JSON.''],
                     St_write [Lit (response_text resp)]], Inr JNull)
                 else request_failed (request_to_example p) e))"
  unfolding get_prediction_def request_to_example_def Let_def env_set_values
  by simp

lemma get_prediction_widgets_unreachable:
  "get_prediction env_set unreachable (PFloat f1) (PFloat f2) (PFloat f3) (PInt n) (PFloat f5) =
     ([Http_post (request_to_example
          (data_object (format_2f f1) (format_2f f2) (format_2f f3) n (format_2f f5))),
       St_error [Lit ''HTTP Request failed: '',
                 Str_exn (RequestException ''Connection refused'')]], Inr JNull)"
  by (simp add: get_prediction_env_set [OF payload_widgets] unreachable_def request_failed_def)

lemma show_result_dict:
  "kvs \<noteq> [] \<Longrightarrow> show_result (JDict kvs) = normalization (JDict kvs)"
  by (simp add: show_result_def)

lemma dict_get_result_nonempty:
  "dict_get (JDict kvs) ''result'' JNull = Inr raw \<Longrightarrow> pred_value raw = Inr pv \<Longrightarrow>
     pv \<noteq> JNull \<Longrightarrow> kvs \<noteq> []"
  by (auto simp: dict_get_def pred_value_def)

lemma py_float_errors:
  "py_float v = Inl e \<Longrightarrow> e = ValueError \<or> e = TypeError \<or> e = OverflowError"
  by (cases v) (auto split: option.splits)

lemma tab1_returns:
  "get_prediction environ post (PFloat feat1) (PFloat feat2) (PFloat feat3) (PInt feat4)
       (PFloat feat5) = (evs, Inr result) \<Longrightarrow>
     tab1 True environ post feat1 feat2 feat3 feat4 feat5 = (evs @ show_result result, None)"
  by (simp add: tab1_def)

lemma normalization_nonempty: "normalization result \<noteq> []"
  by (auto simp: normalization_def try_body_def split: sum.splits if_splits)

section \<open>Properties of the response normalization\<close>

text \<open>
  C1. For every value \<open>v\<close> that is not a list, the nested list \<^verbatim>\<open>[[v]]\<close>, the flat list
  \<^verbatim>\<open>[v]\<close> and \<open>v\<close> itself give the same prediction value \<open>v\<close>, and the \<^verbatim>\<open>try\<close> body has
  the same outcome on a response whose \<^verbatim>\<open>result\<close> is any of the three. The shapes are
  tried in this order: a list whose first element is a list gives element \<^verbatim>\<open>[0][0]\<close>
  (whatever that element is), any other list gives element \<^verbatim>\<open>[0]\<close>, anything else is
  taken as it is.
\<close>

theorem three_shapes_same_value:
  "\<not> is_list v \<Longrightarrow>
     pred_value (JList (JList (v # ys) # zs)) = Inr v \<and>
     pred_value (JList (v # zs)) = Inr v \<and>
     pred_value v = Inr v \<and>
     try_body (JDict ((''result'', JList [JList [v]]) # rest)) =
       try_body (JDict ((''result'', v) # rest)) \<and>
     try_body (JDict ((''result'', JList [v]) # rest)) =
       try_body (JDict ((''result'', v) # rest))"
  by (simp only: try_body_result pred_value_shapes simp_thms)

text \<open>C1 at \<^verbatim>\<open>v = 5.67\<close>.\<close>

theorem three_shapes_same_value_witness:
  "\<not> is_list (JFloat f_5_67) \<and>
   pred_value (JList [JList [JFloat f_5_67]]) = Inr (JFloat f_5_67) \<and>
   pred_value (JList [JFloat f_5_67]) = Inr (JFloat f_5_67) \<and>
   pred_value (JFloat f_5_67) = Inr (JFloat f_5_67) \<and>
   try_body (JDict [(''result'', JList [JList [JFloat f_5_67]])]) =
     try_body (JDict [(''result'', JFloat f_5_67)]) \<and>
   try_body (JDict [(''result'', JList [JFloat f_5_67])]) =
     try_body (JDict [(''result'', JFloat f_5_67)])"
  using three_shapes_same_value [of "JFloat f_5_67" "[]" "[]" "[]"] by simp

text \<open>What the page shows for \<^verbatim>\<open>{"result": [[5.67]]}\<close>.\<close>

lemma normalization_5_67:
  "normalization (JDict [(''result'', JList [JList [JFloat f_5_67]])]) =
     [St_metric ''Model Version'' (JStr ''Unknown''),
      St_metric_text ''Response Time'' [Str_json (JInt 0), Lit '' ms''],
      St_write [Lit ''### Quality Estimate: 5.67''],
      St_plotly_chart (draw_gauge f_5_67)]"
  by (simp add: normalization_def try_body_def dict_get_def pred_value_def index0_def
        model_version_def response_time_def f_5_67_def centi_def round_half_even_def
        digits.simps digit_char_def)

text \<open>
  C5. When the \<^verbatim>\<open>result\<close> of a parsed object is absent or the value extracted from it is
  \<^verbatim>\<open>None\<close>, the normalization reports "Could not extract a prediction value." and
  nothing else: it neither shows a prediction nor reaches the exception handler. On the
  page this is what appears unless the object is empty, which the truth test of line 100
  keeps away from the block.
\<close>

theorem absent_value_reported:
  "dict_get (JDict kvs) ''result'' JNull = Inr raw_prediction \<Longrightarrow>
   pred_value raw_prediction = Inr JNull \<Longrightarrow>
     normalization (JDict kvs) = [missing_value_error] \<and>
     show_result (JDict kvs) = (if kvs = [] then [] else [missing_value_error])"
  by (simp add: normalization_def show_result_def try_body_def missing_value_error_def)

text \<open>C5 at \<^verbatim>\<open>{"result": None}\<close>.\<close>

theorem absent_value_reported_witness:
  "dict_get (JDict [(''result'', JNull)]) ''result'' JNull = Inr JNull \<and>
   pred_value JNull = Inr JNull \<and>
   normalization (JDict [(''result'', JNull)]) =
     [St_error [Lit ''Could not extract a prediction value.'']] \<and>
   show_result (JDict [(''result'', JNull)]) =
     [St_error [Lit ''Could not extract a prediction value.'']]"
  using absent_value_reported [of "[(''result'', JNull)]" JNull]
  by (simp add: dict_get_def pred_value_def missing_value_error_def)

text \<open>
  C6. When the value extracted from a parsed object is not \<^verbatim>\<open>None\<close> and \<^verbatim>\<open>float\<close> raises on
  it, the handler of the block reports "Error parsing API response: " followed by the
  exception, with the raw response below it; no exception escapes and no prediction is
  shown. The exception is \<^verbatim>\<open>ValueError\<close>, \<^verbatim>\<open>TypeError\<close> or \<^verbatim>\<open>OverflowError\<close>, and the report
  differs from the one for a missing value.
\<close>

theorem conversion_failure_reported:
  "dict_get (JDict kvs) ''result'' JNull = Inr raw_prediction \<Longrightarrow>
   pred_value raw_prediction = Inr pv \<Longrightarrow> pv \<noteq> JNull \<Longrightarrow> py_float pv = Inl e \<Longrightarrow>
     show_result (JDict kvs) = parse_error e (JDict kvs) \<and>
     (e = ValueError \<or> e = TypeError \<or> e = OverflowError) \<and>
     parse_error e (JDict kvs) \<noteq> [missing_value_error]"
proof -
  assume raw: "dict_get (JDict kvs) ''result'' JNull = Inr raw_prediction"
    and pv: "pred_value raw_prediction = Inr pv" "pv \<noteq> JNull" and e: "py_float pv = Inl e"
  have "try_body (JDict kvs) = Inl e"
    unfolding try_body_def by (simp add: raw pv e)
  moreover have "kvs \<noteq> []" using raw pv by (rule dict_get_result_nonempty)
  ultimately have "show_result (JDict kvs) = parse_error e (JDict kvs)"
    by (simp add: show_result_dict normalization_def parse_error_def)
  moreover have "parse_error e (JDict kvs) \<noteq> [missing_value_error]"
    by (simp add: parse_error_def)
  ultimately show ?thesis using py_float_errors [OF e] by simp
qed

text \<open>C6 at \<^verbatim>\<open>{"result": "not-a-number"}\<close>.\<close>

theorem conversion_failure_reported_witness:
  "dict_get (JDict [(''result'', JStr ''not-a-number'')]) ''result'' JNull =
     Inr (JStr ''not-a-number'') \<and>
   pred_value (JStr ''not-a-number'') = Inr (JStr ''not-a-number'') \<and>
   JStr ''not-a-number'' \<noteq> JNull \<and>
   py_float (JStr ''not-a-number'') = Inl ValueError \<and>
   show_result (JDict [(''result'', JStr ''not-a-number'')]) =
     [St_error [Lit ''Error parsing API response: '', Str_exn ValueError],
      St_expander ''Debug: View Raw Response'',
      St_json (JDict [(''result'', JStr ''not-a-number'')])]"
proof -
  have h: "dict_get (JDict [(''result'', JStr ''not-a-number'')]) ''result'' JNull =
     Inr (JStr ''not-a-number'')"
    "pred_value (JStr ''not-a-number'') = Inr (JStr ''not-a-number'')"
    "JStr ''not-a-number'' \<noteq> JNull"
    "py_float (JStr ''not-a-number'') = Inl ValueError"
    by (simp_all add: dict_get_def pred_value_def float_of_string_def strip_def is_space_def
          has_sign_def lower_def decimal_def is_digit_def)
  from conversion_failure_reported [OF h] h show ?thesis
    by (simp add: parse_error_def)
qed

text \<open>
  C9. When \<^verbatim>\<open>result\<close> is the empty list, or a list whose first element is the empty list,
  reading element 0 raises \<^verbatim>\<open>IndexError\<close>; the handler of the block reports it with the raw
  response, and the report is not the one for a missing value.
\<close>

theorem empty_list_reported:
  "raw_prediction = JList [] \<or> raw_prediction = JList (JList [] # rest) \<Longrightarrow>
   map_of kvs ''result'' = Some raw_prediction \<Longrightarrow>
     pred_value raw_prediction = Inl IndexError \<and>
     show_result (JDict kvs) = parse_error IndexError (JDict kvs) \<and>
     parse_error IndexError (JDict kvs) \<noteq> [missing_value_error]"
proof -
  assume shape: "raw_prediction = JList [] \<or> raw_prediction = JList (JList [] # rest)"
    and key: "map_of kvs ''result'' = Some raw_prediction"
  from shape have pv: "pred_value raw_prediction = Inl IndexError"
    by (auto simp: pred_value_def index0_def)
  from key have raw: "dict_get (JDict kvs) ''result'' JNull = Inr raw_prediction"
    by (simp add: dict_get_def)
  have "try_body (JDict kvs) = Inl IndexError"
    unfolding try_body_def by (simp add: raw pv)
  moreover from key have "kvs \<noteq> []" by auto
  ultimately have "show_result (JDict kvs) = parse_error IndexError (JDict kvs)"
    by (simp add: show_result_dict normalization_def parse_error_def)
  with pv show ?thesis by (simp add: parse_error_def)
qed

text \<open>C9 at \<^verbatim>\<open>{"result": []}\<close> and at \<^verbatim>\<open>{"result": [[]]}\<close>.\<close>

theorem empty_list_reported_witness:
  "map_of [(''result'', JList [])] ''result'' = Some (JList []) \<and>
   show_result (JDict [(''result'', JList [])]) =
     [St_error [Lit ''Error parsing API response: '', Str_exn IndexError],
      St_expander ''Debug: View Raw Response'',
      St_json (JDict [(''result'', JList [])])] \<and>
   map_of [(''result'', JList [JList []])] ''result'' = Some (JList [JList []]) \<and>
   show_result (JDict [(''result'', JList [JList []])]) =
     [St_error [Lit ''Error parsing API response: '', Str_exn IndexError],
      St_expander ''Debug: View Raw Response'',
      St_json (JDict [(''result'', JList [JList []])])]"
proof -
  have a: "JList [] = JList [] \<or> JList [] = JList (JList [] # [])" by simp
  have b: "JList [JList []] = JList [] \<or> JList [JList []] = JList (JList [] # [])" by simp
  have ka: "map_of [(''result'', JList [])] ''result'' = Some (JList [])" by simp
  have kb: "map_of [(''result'', JList [JList []])] ''result'' = Some (JList [JList []])" by simp
  from empty_list_reported [OF a ka] empty_list_reported [OF b kb] show ?thesis
    by (simp add: parse_error_def)
qed

text \<open>
  C3. Line 123 gives its two reads a default, \<^verbatim>\<open>{}\<close> for \<^verbatim>\<open>release\<close> and \<^verbatim>\<open>'Unknown'\<close> for
  \<^verbatim>\<open>model_version_number\<close>, so that an absent \<^verbatim>\<open>release\<close> still yields \<^verbatim>\<open>"Unknown"\<close>; the read
  of \<^verbatim>\<open>model_time_in_ms\<close> on line 124 accepts any value, \<^verbatim>\<open>null\<close> included. A \<^verbatim>\<open>release\<close> that
  is present but is no object is not covered: on \<^verbatim>\<open>{"result": 5.67, "release": null}\<close> the
  value is extracted and converted, \<^verbatim>\<open>result.get('release', {})\<close> is \<^verbatim>\<open>None\<close>, the second
  \<^verbatim>\<open>get\<close> raises \<^verbatim>\<open>AttributeError\<close>, and the page shows a parsing error in place of the
  prediction. The metadata extraction does fail the normalization there.
\<close>

theorem release_null_withholds_prediction:
  "dict_get (JDict [(''result'', JFloat f_5_67), (''release'', JNull)]) ''result'' JNull =
     Inr (JFloat f_5_67) \<and>
   pred_value (JFloat f_5_67) = Inr (JFloat f_5_67) \<and>
   py_float (JFloat f_5_67) = Inr f_5_67 \<and>
   model_version (JDict [(''result'', JFloat f_5_67), (''release'', JNull)]) = Inl AttributeError \<and>
   show_result (JDict [(''result'', JFloat f_5_67), (''release'', JNull)]) =
     [St_error [Lit ''Error parsing API response: '', Str_exn AttributeError],
      St_expander ''Debug: View Raw Response'',
      St_json (JDict [(''result'', JFloat f_5_67), (''release'', JNull)])] \<and>
   model_version (JDict [(''result'', JFloat f_5_67)]) = Inr (JStr ''Unknown'') \<and>
   response_time (JDict [(''result'', JFloat f_5_67), (''model_time_in_ms'', JNull)]) =
     Inr JNull"
  by (simp add: show_result_def normalization_def try_body_def dict_get_def pred_value_def
        model_version_def response_time_def)

section \<open>Properties of the prediction client\<close>

text \<open>
  C4. When \<^verbatim>\<open>API_URL\<close> is not set (or is the empty string), \<^verbatim>\<open>get_prediction\<close> reports
  "API_URL environment variable is not set." and returns \<^verbatim>\<open>None\<close>, whatever its
  arguments and whatever the transport would do: the events hold no call of the transport.
  The tab then shows that message only.
\<close>

theorem no_url_no_call:
  "environ ''API_URL'' = None \<or> environ ''API_URL'' = Some [] \<Longrightarrow>
     get_prediction environ post density volatile_acidity chlorides is_red alcohol =
       ([config_error], Inr JNull) \<and>
     transport_calls
       (fst (get_prediction environ post density volatile_acidity chlorides is_red alcohol)) = [] \<and>
     tab1 True environ post feat1 feat2 feat3 feat4 feat5 = ([config_error], None)"
  by (auto simp: get_prediction_def config_error_def tab1_def show_result_def
        transport_calls_def)

text \<open>C4 in the empty environment.\<close>

theorem no_url_no_call_witness:
  "(env_unset ''API_URL'' = None \<or> env_unset ''API_URL'' = Some []) \<and>
   get_prediction env_unset (answering (JDict [(''result'', JFloat f_5_67)]))
       (PFloat f_0_99) (PFloat f_0_25) (PFloat f_0_05) (PInt 1) (PFloat f_10_0) =
     ([St_error [Lit ''API_URL environment variable is not set.'']], Inr JNull) \<and>
   transport_calls
     (fst (get_prediction env_unset (answering (JDict [(''result'', JFloat f_5_67)]))
       (PFloat f_0_99) (PFloat f_0_25) (PFloat f_0_05) (PInt 1) (PFloat f_10_0))) = [] \<and>
   tab1 True env_unset (answering (JDict [(''result'', JFloat f_5_67)]))
       f_0_99 f_0_25 f_0_05 1 f_10_0 =
     ([St_error [Lit ''API_URL environment variable is not set.'']], None)"
proof -
  have h: "env_unset ''API_URL'' = None \<or> env_unset ''API_URL'' = Some []"
    by (simp add: env_unset_def)
  from no_url_no_call [where environ = env_unset, OF h] h show ?thesis
    by (simp add: config_error_def transport_calls_def)
qed

text \<open>
  C2, as stated, fails: the widget for \<^verbatim>\<open>is_red\<close> has no bounds, and with the value \<^verbatim>\<open>2\<close>
  the payload sent holds \<^verbatim>\<open>"is_red": 2\<close>.
\<close>

theorem is_red_two_counterexample:
  "fst (tab1 True env_set unreachable f_0_99 f_0_25 f_0_05 2 f_10_0) =
     [Http_post (request_to_example (data_object ''0.99'' ''0.25'' ''0.05'' 2 ''10.00'')),
      St_error [Lit ''HTTP Request failed: '', Str_exn (RequestException ''Connection refused'')]]
   \<and> payload_field (data_object ''0.99'' ''0.25'' ''0.05'' 2 ''10.00'') ''is_red'' = Some (JInt 2)"
proof -
  have "get_prediction env_set unreachable
          (PFloat f_0_99) (PFloat f_0_25) (PFloat f_0_05) (PInt 2) (PFloat f_10_0) =
        ([Http_post (request_to_example (data_object ''0.99'' ''0.25'' ''0.05'' 2 ''10.00'')),
          St_error [Lit ''HTTP Request failed: '',
                    Str_exn (RequestException ''Connection refused'')]], Inr JNull)"
    by (simp add: get_prediction_widgets_unreachable format_2f_widget_defaults)
  then show ?thesis
    by (simp add: tab1_def show_result_def payload_field_def data_object_def)
qed

text \<open>
  C2, amended. In every request \<^verbatim>\<open>get_prediction\<close> sends, the \<^verbatim>\<open>is_red\<close> entry is the JSON
  integer \<^verbatim>\<open>int(is_red)\<close>, never a boolean or a string: \<^verbatim>\<open>0\<close> or \<^verbatim>\<open>1\<close> for a \<^verbatim>\<open>bool\<close>, the
  integer itself for an \<^verbatim>\<open>int\<close>, the truncation for a \<^verbatim>\<open>float\<close>.
\<close>

theorem is_red_serialized_as_int:
  "Http_post req \<in> set (fst (get_prediction environ post
       density volatile_acidity chlorides is_red alcohol)) \<Longrightarrow>
     \<exists>n. py_int is_red = Inr n \<and>
         payload_field (json_body req) ''is_red'' = Some (JInt n) \<and>
         (case is_red of PBool b \<Rightarrow> n = 0 \<or> n = 1 | PInt k \<Rightarrow> n = k | PFloat f \<Rightarrow> True)"
proof -
  assume "Http_post req \<in> set (fst (get_prediction environ post
       density volatile_acidity chlorides is_red alcohol))"
  then have "payload density volatile_acidity chlorides is_red alcohol = Inr (json_body req)"
    by (rule get_prediction_post)
  then obtain n where n: "py_int is_red = Inr n"
    and f: "payload_field (json_body req) ''is_red'' = Some (JInt n)"
    by (auto dest!: payload_Inr simp: payload_field_def)
  from n have "case is_red of PBool b \<Rightarrow> n = 0 \<or> n = 1 | PInt k \<Rightarrow> n = k | PFloat f \<Rightarrow> True"
    by (cases is_red) (auto simp: int_of_bool_def)
  with n f show ?thesis by blast
qed

text \<open>C2, amended, at \<^verbatim>\<open>is_red = True\<close>.\<close>

theorem is_red_serialized_as_int_witness:
  "Http_post (request_to_example (data_object ''0.99'' ''0.25'' ''0.05'' 1 ''10.00''))
     \<in> set (fst (get_prediction env_set unreachable
          (PFloat f_0_99) (PFloat f_0_25) (PFloat f_0_05) (PBool True) (PFloat f_10_0))) \<and>
   py_int (PBool True) = Inr 1 \<and>
   payload_field (json_body (request_to_example (data_object ''0.99'' ''0.25'' ''0.05'' 1 ''10.00'')))
     ''is_red'' = Some (JInt 1)"
proof -
  have p: "payload (PFloat f_0_99) (PFloat f_0_25) (PFloat f_0_05) (PBool True) (PFloat f_10_0) =
      Inr (data_object ''0.99'' ''0.25'' ''0.05'' 1 ''10.00'')"
    by (simp add: payload_def data_object_def format_2f_widget_defaults int_of_bool_def)
  have h: "Http_post (request_to_example (data_object ''0.99'' ''0.25'' ''0.05'' 1 ''10.00''))
     \<in> set (fst (get_prediction env_set unreachable
          (PFloat f_0_99) (PFloat f_0_25) (PFloat f_0_05) (PBool True) (PFloat f_10_0)))"
    by (simp add: get_prediction_env_set [OF p] unreachable_def request_failed_def)
  from is_red_serialized_as_int [OF h] h show ?thesis
    by (auto simp: int_of_bool_def)
qed

text \<open>
  C7. In every request \<^verbatim>\<open>get_prediction\<close> sends for numbers (no \<^verbatim>\<open>inf\<close>, no \<^verbatim>\<open>nan\<close>), the
  entries \<^verbatim>\<open>density\<close>, \<^verbatim>\<open>volatile_acidity\<close>, \<^verbatim>\<open>chlorides\<close> and \<^verbatim>\<open>alcohol\<close> are strings, the
  \<^verbatim>\<open>.2f\<close> format of the arguments, and each has exactly two fractional digits.
\<close>

theorem decimals_have_two_digits:
  "Http_post req \<in> set (fst (get_prediction environ post
       density volatile_acidity chlorides is_red alcohol)) \<Longrightarrow>
   finite_num density \<Longrightarrow> finite_num volatile_acidity \<Longrightarrow>
   finite_num chlorides \<Longrightarrow> finite_num alcohol \<Longrightarrow>
     \<exists>ds vs cs as.
       py_format_2f density = Inr ds \<and> py_format_2f volatile_acidity = Inr vs \<and>
       py_format_2f chlorides = Inr cs \<and> py_format_2f alcohol = Inr as \<and>
       payload_field (json_body req) ''density'' = Some (JStr ds) \<and>
       payload_field (json_body req) ''volatile_acidity'' = Some (JStr vs) \<and>
       payload_field (json_body req) ''chlorides'' = Some (JStr cs) \<and>
       payload_field (json_body req) ''alcohol'' = Some (JStr as) \<and>
       two_decimals ds \<and> two_decimals vs \<and> two_decimals cs \<and> two_decimals as"
proof -
  assume sent: "Http_post req \<in> set (fst (get_prediction environ post
       density volatile_acidity chlorides is_red alcohol))"
    and fin: "finite_num density" "finite_num volatile_acidity"
      "finite_num chlorides" "finite_num alcohol"
  from sent have "payload density volatile_acidity chlorides is_red alcohol = Inr (json_body req)"
    by (rule get_prediction_post)
  then obtain ds vs cs n as where
    fm: "py_format_2f density = Inr ds" "py_format_2f volatile_acidity = Inr vs"
      "py_format_2f chlorides = Inr cs" "py_format_2f alcohol = Inr as"
    and body: "json_body req = JDict [(''data'', JDict [(''density'', JStr ds),
        (''volatile_acidity'', JStr vs), (''chlorides'', JStr cs), (''is_red'', JInt n),
        (''alcohol'', JStr as)])]"
    by (auto dest!: payload_Inr)
  have fields: "payload_field (json_body req) ''density'' = Some (JStr ds)"
    "payload_field (json_body req) ''volatile_acidity'' = Some (JStr vs)"
    "payload_field (json_body req) ''chlorides'' = Some (JStr cs)"
    "payload_field (json_body req) ''alcohol'' = Some (JStr as)"
    by (simp_all add: body payload_field_def)
  have two: "two_decimals ds" "two_decimals vs" "two_decimals cs" "two_decimals as"
    using fin fm by (blast intro: py_format_2f_finite)+
  from fm fields two show ?thesis by blast
qed

text \<open>C7 at \<^verbatim>\<open>density = 0.993\<close> and \<^verbatim>\<open>volatile_acidity = 1\<close>: \<^verbatim>\<open>"0.99"\<close> and \<^verbatim>\<open>"1.00"\<close>.\<close>

theorem decimals_have_two_digits_witness:
  "Http_post (request_to_example (data_object ''0.99'' ''1.00'' ''0.05'' 1 ''10.00''))
     \<in> set (fst (get_prediction env_set unreachable
          (PFloat f_0_993) (PInt 1) (PFloat f_0_05) (PInt 1) (PFloat f_10_0))) \<and>
   finite_num (PFloat f_0_993) \<and> finite_num (PInt 1) \<and>
   finite_num (PFloat f_0_05) \<and> finite_num (PFloat f_10_0) \<and>
   py_format_2f (PFloat f_0_993) = Inr ''0.99'' \<and> py_format_2f (PInt 1) = Inr ''1.00'' \<and>
   two_decimals ''0.99'' \<and> two_decimals ''1.00'' \<and> two_decimals ''0.05'' \<and>
   two_decimals ''10.00''"
proof -
  have p: "payload (PFloat f_0_993) (PInt 1) (PFloat f_0_05) (PInt 1) (PFloat f_10_0) =
      Inr (data_object ''0.99'' ''1.00'' ''0.05'' 1 ''10.00'')"
    unfolding payload_def data_object_def py_format_2f_one
    by (simp add: format_2f_widget_defaults)
  have h: "Http_post (request_to_example (data_object ''0.99'' ''1.00'' ''0.05'' 1 ''10.00''))
     \<in> set (fst (get_prediction env_set unreachable
          (PFloat f_0_993) (PInt 1) (PFloat f_0_05) (PInt 1) (PFloat f_10_0)))"
    by (simp add: get_prediction_env_set [OF p] unreachable_def request_failed_def)
  have f: "finite_num (PFloat f_0_993)" "finite_num (PInt 1)"
    "finite_num (PFloat f_0_05)" "finite_num (PFloat f_10_0)"
    by (simp_all add: f_0_993_def f_0_05_def f_10_0_def)
  have e: "py_format_2f (PFloat f_0_993) = Inr ''0.99''" "py_format_2f (PInt 1) = Inr ''1.00''"
    "py_format_2f (PFloat f_0_05) = Inr ''0.05''" "py_format_2f (PFloat f_10_0) = Inr ''10.00''"
    by (simp_all add: format_2f_widget_defaults py_format_2f_one del: py_format_2f.simps(2))
  from decimals_have_two_digits [OF h f] h f e show ?thesis
    by auto
qed

text \<open>
  C8. When the transport raises a \<^verbatim>\<open>RequestException\<close> (a connection error is one) on the
  request built, \<^verbatim>\<open>get_prediction\<close> reports "HTTP Request failed: " followed by the
  exception and returns \<^verbatim>\<open>None\<close>; the report differs from the two others of the client.
  Nothing escapes: the tab shows nothing for \<^verbatim>\<open>None\<close>, and the run of the tab ends
  normally with that one message.
\<close>

theorem network_failure_reported:
  "environ ''API_URL'' = Some u \<Longrightarrow> u \<noteq> [] \<Longrightarrow>
   payload density volatile_acidity chlorides is_red alcohol = Inr p \<Longrightarrow>
   req = \<lparr>url = u, auth = (environ ''API_USERNAME'', environ ''API_PASSWORD''),
          json_body = p, headers = [(''Content-Type'', ''application/json'')]\<rparr> \<Longrightarrow>
   post req = Inl e \<Longrightarrow> is_RequestException e \<Longrightarrow>
     get_prediction environ post density volatile_acidity chlorides is_red alcohol =
       ([Http_post req, network_error e], Inr JNull) \<and>
     show_result JNull = [] \<and>
     (density = PFloat feat1 \<and> volatile_acidity = PFloat feat2 \<and> chlorides = PFloat feat3 \<and>
      is_red = PInt feat4 \<and> alcohol = PFloat feat5 \<longrightarrow>
        tab1 True environ post feat1 feat2 feat3 feat4 feat5 =
          ([Http_post req, network_error e], None)) \<and>
     network_error e \<noteq> config_error \<and>
     network_error e \<noteq> St_error [Lit ''API did not return valid JSON.'']"
proof -
  assume url: "environ ''API_URL'' = Some u" "u \<noteq> []"
    and p: "payload density volatile_acidity chlorides is_red alcohol = Inr p"
    and req: "req = \<lparr>url = u, auth = (environ ''API_USERNAME'', environ ''API_PASSWORD''),
          json_body = p, headers = [(''Content-Type'', ''application/json'')]\<rparr>"
    and fails: "post req = Inl e" "is_RequestException e"
  have g: "get_prediction environ post density volatile_acidity chlorides is_red alcohol =
      ([Http_post req, network_error e], Inr JNull)"
    using fails unfolding req
    by (simp add: get_prediction_sends [where environ = environ and post = post, OF url p]
          request_failed_def network_error_def)
  have t: "density = PFloat feat1 \<and> volatile_acidity = PFloat feat2 \<and> chlorides = PFloat feat3 \<and>
      is_red = PInt feat4 \<and> alcohol = PFloat feat5 \<longrightarrow>
        tab1 True environ post feat1 feat2 feat3 feat4 feat5 =
          ([Http_post req, network_error e], None)"
  proof
    assume "density = PFloat feat1 \<and> volatile_acidity = PFloat feat2 \<and>
      chlorides = PFloat feat3 \<and> is_red = PInt feat4 \<and> alcohol = PFloat feat5"
    with g have "get_prediction environ post (PFloat feat1) (PFloat feat2) (PFloat feat3)
        (PInt feat4) (PFloat feat5) = ([Http_post req, network_error e], Inr JNull)"
      by simp
    from tab1_returns [OF this] show "tab1 True environ post feat1 feat2 feat3 feat4 feat5 =
          ([Http_post req, network_error e], None)"
      by (simp add: show_result_def)
  qed
  have d: "network_error e \<noteq> config_error"
    "network_error e \<noteq> St_error [Lit ''API did not return valid JSON.'']"
    by (simp_all add: network_error_def config_error_def)
  from g t d show ?thesis by (simp add: show_result_def)
qed

text \<open>C8 with the widget defaults and a transport that refuses the connection.\<close>

theorem network_failure_reported_witness:
  "env_set ''API_URL'' = Some ''https://model.example/predict'' \<and>
   ''https://model.example/predict'' \<noteq> [] \<and>
   payload (PFloat f_0_99) (PFloat f_0_25) (PFloat f_0_05) (PInt 1) (PFloat f_10_0) =
     Inr (data_object ''0.99'' ''0.25'' ''0.05'' 1 ''10.00'') \<and>
   unreachable (request_to_example (data_object ''0.99'' ''0.25'' ''0.05'' 1 ''10.00'')) =
     Inl (RequestException ''Connection refused'') \<and>
   is_RequestException (RequestException ''Connection refused'') \<and>
   get_prediction env_set unreachable
       (PFloat f_0_99) (PFloat f_0_25) (PFloat f_0_05) (PInt 1) (PFloat f_10_0) =
     ([Http_post (request_to_example (data_object ''0.99'' ''0.25'' ''0.05'' 1 ''10.00'')),
       St_error [Lit ''HTTP Request failed: '',
                 Str_exn (RequestException ''Connection refused'')]], Inr JNull) \<and>
   tab1 True env_set unreachable f_0_99 f_0_25 f_0_05 1 f_10_0 =
     ([Http_post (request_to_example (data_object ''0.99'' ''0.25'' ''0.05'' 1 ''10.00'')),
       St_error [Lit ''HTTP Request failed: '',
                 Str_exn (RequestException ''Connection refused'')]], None)"
proof -
  have h: "env_set ''API_URL'' = Some ''https://model.example/predict''"
    "''https://model.example/predict'' \<noteq> []"
    "payload (PFloat f_0_99) (PFloat f_0_25) (PFloat f_0_05) (PInt 1) (PFloat f_10_0) =
       Inr (data_object ''0.99'' ''0.25'' ''0.05'' 1 ''10.00'')"
    "request_to_example (data_object ''0.99'' ''0.25'' ''0.05'' 1 ''10.00'') =
       \<lparr>url = ''https://model.example/predict'',
        auth = (env_set ''API_USERNAME'', env_set ''API_PASSWORD''),
        json_body = data_object ''0.99'' ''0.25'' ''0.05'' 1 ''10.00'',
        headers = [(''Content-Type'', ''application/json'')]\<rparr>"
    "unreachable (request_to_example (data_object ''0.99'' ''0.25'' ''0.05'' 1 ''10.00'')) =
       Inl (RequestException ''Connection refused'')"
    "is_RequestException (RequestException ''Connection refused'')"
    by (simp_all add: env_set_values payload_widgets format_2f_widget_defaults
          request_to_example_def unreachable_def)
  note r = network_failure_reported [where environ = env_set and post = unreachable, OF h]
  from r have g: "get_prediction env_set unreachable
       (PFloat f_0_99) (PFloat f_0_25) (PFloat f_0_05) (PInt 1) (PFloat f_10_0) =
     ([Http_post (request_to_example (data_object ''0.99'' ''0.25'' ''0.05'' 1 ''10.00'')),
       St_error [Lit ''HTTP Request failed: '',
                 Str_exn (RequestException ''Connection refused'')]], Inr JNull)"
    by (simp add: network_error_def)
  from r g h show ?thesis
    by (simp add: network_error_def)
qed

section \<open>Properties of the tab\<close>

text \<open>The values the truth test of line 100 rejects.\<close>

lemma falsy_values:
  "\<not> truthy (JDict [])" "\<not> truthy (JList [])" "\<not> truthy JNull" "\<not> truthy (JInt 0)"
  "\<not> truthy (JBool False)" "\<not> truthy (JStr [])" "\<not> truthy (JFloat (Finite s 0 e))"
  by simp_all

text \<open>
  C10. When the transport answers and the parsed body is false as a truth value (an empty
  object, an empty list, \<^verbatim>\<open>null\<close>, \<^verbatim>\<open>0\<close>, \<^verbatim>\<open>false\<close>), a run of the tab calls the transport and
  puts nothing on the page, neither a prediction nor a message. The block is skipped by
  the truth test: run on the same value, it would put something on the page.
\<close>

theorem falsy_result_shows_nothing:
  "environ ''API_URL'' = Some u \<Longrightarrow> u \<noteq> [] \<Longrightarrow>
   req = \<lparr>url = u, auth = (environ ''API_USERNAME'', environ ''API_PASSWORD''),
          json_body = data_object (format_2f feat1) (format_2f feat2) (format_2f feat3) feat4
                        (format_2f feat5),
          headers = [(''Content-Type'', ''application/json'')]\<rparr> \<Longrightarrow>
   post req = Inr resp \<Longrightarrow> response_json resp = Inr result \<Longrightarrow> \<not> truthy result \<Longrightarrow>
     tab1 True environ post feat1 feat2 feat3 feat4 feat5 = ([Http_post req], None) \<and>
     displayed (fst (tab1 True environ post feat1 feat2 feat3 feat4 feat5)) = [] \<and>
     normalization result \<noteq> []"
proof -
  assume url: "environ ''API_URL'' = Some u" "u \<noteq> []"
    and req: "req = \<lparr>url = u, auth = (environ ''API_USERNAME'', environ ''API_PASSWORD''),
          json_body = data_object (format_2f feat1) (format_2f feat2) (format_2f feat3) feat4
                        (format_2f feat5),
          headers = [(''Content-Type'', ''application/json'')]\<rparr>"
    and resp: "post req = Inr resp" "response_json resp = Inr result"
    and falsy: "\<not> truthy result"
  have "get_prediction environ post (PFloat feat1) (PFloat feat2) (PFloat feat3) (PInt feat4)
       (PFloat feat5) = ([Http_post req], Inr result)"
    using resp unfolding req
    by (simp add: get_prediction_sends [where environ = environ and post = post, OF url payload_widgets])
  from tab1_returns [OF this] falsy
  have "tab1 True environ post feat1 feat2 feat3 feat4 feat5 = ([Http_post req], None)"
    by (simp add: show_result_def)
  then show ?thesis
    by (simp add: displayed_def normalization_nonempty)
qed

text \<open>C10 for the body \<^verbatim>\<open>{}\<close>.\<close>

theorem falsy_result_shows_nothing_witness:
  "env_set ''API_URL'' = Some ''https://model.example/predict'' \<and>
   ''https://model.example/predict'' \<noteq> [] \<and>
   answering (JDict []) (request_to_example (data_object ''0.99'' ''0.25'' ''0.05'' 1 ''10.00'')) =
     Inr \<lparr>response_text = [], response_json = Inr (JDict [])\<rparr> \<and>
   \<not> truthy (JDict []) \<and>
   tab1 True env_set (answering (JDict [])) f_0_99 f_0_25 f_0_05 1 f_10_0 =
     ([Http_post (request_to_example (data_object ''0.99'' ''0.25'' ''0.05'' 1 ''10.00''))], None) \<and>
   displayed (fst (tab1 True env_set (answering (JDict [])) f_0_99 f_0_25 f_0_05 1 f_10_0)) = [] \<and>
   normalization (JDict []) = [St_error [Lit ''Could not extract a prediction value.'']]"
proof -
  have h: "env_set ''API_URL'' = Some ''https://model.example/predict''"
    "''https://model.example/predict'' \<noteq> []"
    "request_to_example (data_object ''0.99'' ''0.25'' ''0.05'' 1 ''10.00'') =
       \<lparr>url = ''https://model.example/predict'',
        auth = (env_set ''API_USERNAME'', env_set ''API_PASSWORD''),
        json_body = data_object (format_2f f_0_99) (format_2f f_0_25) (format_2f f_0_05) 1
                      (format_2f f_10_0),
        headers = [(''Content-Type'', ''application/json'')]\<rparr>"
    "answering (JDict []) (request_to_example (data_object ''0.99'' ''0.25'' ''0.05'' 1 ''10.00'')) =
       Inr \<lparr>response_text = [], response_json = Inr (JDict [])\<rparr>"
    "response_json \<lparr>response_text = [], response_json = Inr (JDict [])\<rparr> = Inr (JDict [])"
    "\<not> truthy (JDict [])"
    by (simp_all add: env_set_values format_2f_widget_defaults request_to_example_def
          answering_def)
  have n: "normalization (JDict []) = [St_error [Lit ''Could not extract a prediction value.'']]"
    by (simp add: normalization_def try_body_def dict_get_def pred_value_def)
  note r = falsy_result_shows_nothing [where environ = env_set and post = "answering (JDict [])",
      OF h]
  from r have t: "tab1 True env_set (answering (JDict [])) f_0_99 f_0_25 f_0_05 1 f_10_0 =
     ([Http_post (request_to_example (data_object ''0.99'' ''0.25'' ''0.05'' 1 ''10.00''))], None)"
    by (rule conjunct1)
  from r have d: "displayed (fst (tab1 True env_set (answering (JDict []))
      f_0_99 f_0_25 f_0_05 1 f_10_0)) = []"
    by (rule conjunct1 [OF conjunct2])
  from h(1,2,4,6) t d n show ?thesis
    by (simp only: simp_thms)
qed

end
